theory Spec2Isabelle
  imports Main
begin

section \<open>Values exchanged with the host framework\<close>

text \<open>
  The argument payload of a method call is an opaque, variant-typed value
  (\<^verbatim>\<open>flutter::EncodableValue\<close> on Windows, \<^verbatim>\<open>FlValue\<close> on Linux). The shim never
  inspects it; the variants below only give the payload some shape.
\<close>

datatype EncodableValue =
    EvNull
  | EvBool bool
  | EvInt int
  | EvString string
  | EvList "EncodableValue list"
  | EvMap "(EncodableValue \<times> EncodableValue) list"

text \<open>The three terminal responses a reply sink accepts.\<close>

datatype response =
    Success EncodableValue
  | Error string string EncodableValue
  | NotImplemented

text \<open>
  A reply sink is the list of terminal responses delivered through it so far, oldest
  first: \<open>[]\<close> is a sink nobody has answered yet.
\<close>

type_synonym reply_sink = "response list"

datatype error = ResponseAlreadySent

text \<open>
  Modelled from the spec: the host's reply-sink abstraction
  (\<^verbatim>\<open>fl_method_call_respond_not_implemented\<close> of the Linux embedder and
  \<^verbatim>\<open>flutter::MethodResult::NotImplemented\<close> of the Windows client wrapper) is not part
  of the repository. The spec calls the sink a single-use, write-once handle and defines
  no failure for a valid sink. A sink is valid while it is unanswered; the terminal
  response is then recorded. A sink that was answered before keeps what it holds and the
  host reports the misuse as an error value.
\<close>

definition respond_terminal :: "response \<Rightarrow> reply_sink \<Rightarrow> error + reply_sink" where
  "respond_terminal r sink = (if sink = [] then Inr [r] else Inl ResponseAlreadySent)"

section \<open>Linux: \<^verbatim>\<open>linux/flutter_network_watcher_plugin.cc\<close>\<close>

text \<open>
  \<^verbatim>\<open>GObject\<close> and the registrar are host objects the shim only holds pointers to; they
  are modelled by an opaque identity.
\<close>

type_synonym GObject = nat
type_synonym FlPluginRegistrar = nat
type_synonym FlMethodChannel = string

text \<open>\<^verbatim>\<open>struct _FlutterNetworkWatcherPlugin { GObject parent_instance; };\<close>\<close>

record FlutterNetworkWatcherPlugin_struct =
  parent_instance :: GObject

text \<open>
  The host's \<^verbatim>\<open>FlMethodCall\<close>: the call record of the spec (method name, argument
  payload) together with the reply sink of that call.
\<close>

record FlMethodCall =
  fl_name :: string
  fl_args :: EncodableValue
  fl_reply :: reply_sink

section \<open>Windows: \<^verbatim>\<open>windows/flutter_network_watcher_plugin.h\<close>\<close>

type_synonym Plugin = nat
type_synonym PluginRegistrarWindows = nat
type_synonym FlutterDesktopPluginRegistrarRef = nat

text \<open>
  \<^verbatim>\<open>class FlutterNetworkWatcherPlugin : public flutter::Plugin\<close> declares no data
  member: an object consists of its (empty, opaque) base subobject only.
\<close>

record FlutterNetworkWatcherPlugin_class =
  Plugin_base :: Plugin

text \<open>\<^verbatim>\<open>flutter::MethodCall<flutter::EncodableValue>\<close>: method name and arguments.\<close>

record MethodCall =
  method_name :: string
  arguments :: EncodableValue

section \<open>The state of the host that a plugin can reach\<close>

text \<open>
  A method-call handler installed on a channel: which of the two handlers of this
  repository it is, with the plugin object it was bound to (\<^verbatim>\<open>user_data\<close> on Linux,
  the captured plugin pointer on Windows).
\<close>

datatype callback =
    Method_call_cb FlutterNetworkWatcherPlugin_struct
  | HandleMethodCall_cb FlutterNetworkWatcherPlugin_class

text \<open>
  Everything a registration function or a handler could change through the host's API:
  the method channels that have a handler installed (by channel name), the plugin
  objects handed to a registrar, the registrar handles kept beyond the call, the I/O
  performed, and the work queued to run later (threads, timers, idle callbacks).
\<close>

record host =
  channels :: "(string \<times> callback) list"
  plugins :: "callback list"
  retained :: "nat list"
  io :: "string list"
  scheduled :: "string list"

definition initial_host :: host where
  "initial_host = \<lparr>channels = [], plugins = [], retained = [], io = [], scheduled = []\<rparr>"

section \<open>Linux functions\<close>

text \<open>
  Modelled from the spec: the host function the Linux handler calls, the "not
  implemented" terminal response of the reply sink. It returns \<^verbatim>\<open>gboolean\<close>: \<^verbatim>\<open>TRUE\<close> when
  the response was sent, \<^verbatim>\<open>FALSE\<close> otherwise. The second argument is the
  \<^verbatim>\<open>GError**\<close> out-parameter; the only call passes \<^verbatim>\<open>nullptr\<close>, so the error
  itself is dropped and the argument is a flag saying whether an error was asked for.
\<close>

definition fl_method_call_respond_not_implemented ::
    "FlMethodCall \<Rightarrow> bool \<Rightarrow> bool \<times> FlMethodCall" where
  "fl_method_call_respond_not_implemented method_call want_error =
     (case respond_terminal NotImplemented (fl_reply method_call) of
        Inl e \<Rightarrow> (False, method_call)
      | Inr sink \<Rightarrow> (True, method_call\<lparr>fl_reply := sink\<rparr>))"

text \<open>
  \<^verbatim>\<open>flutter_network_watcher_plugin_handle_method_call(self, method_call)\<close>: one call of
  the host function, whose \<^verbatim>\<open>gboolean\<close> result is discarded. The function returns
  \<^verbatim>\<open>void\<close>; the model returns the three things it could have changed through its
  pointers and the host API: \<^verbatim>\<open>*self\<close>, \<^verbatim>\<open>*method_call\<close> and the host state.
\<close>

definition flutter_network_watcher_plugin_handle_method_call ::
    "FlutterNetworkWatcherPlugin_struct \<Rightarrow> FlMethodCall \<Rightarrow> host \<Rightarrow>
     error + (FlutterNetworkWatcherPlugin_struct \<times> FlMethodCall \<times> host)" where
  "flutter_network_watcher_plugin_handle_method_call self method_call h =
     Inr (self, snd (fl_method_call_respond_not_implemented method_call False), h)"

text \<open>\<^verbatim>\<open>flutter_network_watcher_plugin_init(self) {}\<close>\<close>

definition flutter_network_watcher_plugin_init ::
    "FlutterNetworkWatcherPlugin_struct \<Rightarrow> FlutterNetworkWatcherPlugin_struct" where
  "flutter_network_watcher_plugin_init self = self"

text \<open>
  The cast macro \<^verbatim>\<open>FLUTTER_NETWORK_WATCHER_PLUGIN(obj)\<close> returns the pointer it is
  given.
\<close>

definition FLUTTER_NETWORK_WATCHER_PLUGIN ::
    "FlutterNetworkWatcherPlugin_struct \<Rightarrow> FlutterNetworkWatcherPlugin_struct" where
  "FLUTTER_NETWORK_WATCHER_PLUGIN obj = obj"

text \<open>\<^verbatim>\<open>method_call_cb(channel, method_call, user_data)\<close>\<close>

definition method_call_cb ::
    "FlMethodChannel \<Rightarrow> FlMethodCall \<Rightarrow> FlutterNetworkWatcherPlugin_struct \<Rightarrow> host \<Rightarrow>
     error + (FlutterNetworkWatcherPlugin_struct \<times> FlMethodCall \<times> host)" where
  "method_call_cb channel method_call user_data h =
     (let plugin = FLUTTER_NETWORK_WATCHER_PLUGIN user_data
      in flutter_network_watcher_plugin_handle_method_call plugin method_call h)"

text \<open>
  \<^verbatim>\<open>flutter_network_watcher_plugin_register_with_registrar(registrar)\<close>: the body holds
  two comments and no statement.
\<close>

definition flutter_network_watcher_plugin_register_with_registrar ::
    "FlPluginRegistrar \<Rightarrow> host \<Rightarrow> error + host" where
  "flutter_network_watcher_plugin_register_with_registrar registrar h = Inr h"

section \<open>Windows functions\<close>

text \<open>
  \<^verbatim>\<open>FlutterNetworkWatcherPlugin::RegisterWithRegistrar(registrar)\<close>: again a body of
  comments only.
\<close>

definition RegisterWithRegistrar :: "PluginRegistrarWindows \<Rightarrow> host \<Rightarrow> error + host" where
  "RegisterWithRegistrar registrar h = Inr h"

text \<open>
  The constructor and the destructor have empty bodies. The constructor is given the
  base subobject the C++ runtime has built.
\<close>

definition FlutterNetworkWatcherPlugin_ctor ::
    "Plugin \<Rightarrow> host \<Rightarrow> FlutterNetworkWatcherPlugin_class \<times> host" where
  "FlutterNetworkWatcherPlugin_ctor base h = (\<lparr>Plugin_base = base\<rparr>, h)"

definition FlutterNetworkWatcherPlugin_dtor ::
    "FlutterNetworkWatcherPlugin_class \<Rightarrow> host \<Rightarrow> host" where
  "FlutterNetworkWatcherPlugin_dtor self h = h"

text \<open>
  Modelled from the spec: the host function the Windows handler calls on the sink it
  owns, the "not implemented" terminal response of the reply sink. A misuse of the sink
  reaches the caller the way a C++ exception would.
\<close>

definition MethodResult_NotImplemented :: "reply_sink \<Rightarrow> error + reply_sink" where
  "MethodResult_NotImplemented result = respond_terminal NotImplemented result"

text \<open>
  \<^verbatim>\<open>HandleMethodCall(method_call, result)\<close> is \<^verbatim>\<open>result->NotImplemented();\<close>. C++
  lets an exception of the callee pass through the caller; the model writes that
  propagation out.
\<close>

definition HandleMethodCall ::
    "FlutterNetworkWatcherPlugin_class \<Rightarrow> MethodCall \<Rightarrow> reply_sink \<Rightarrow> host \<Rightarrow>
     error + (FlutterNetworkWatcherPlugin_class \<times> reply_sink \<times> host)" where
  "HandleMethodCall self method_call result h =
     (case MethodResult_NotImplemented result of
        Inl e \<Rightarrow> Inl e
      | Inr result' \<Rightarrow> Inr (self, result', h))"

text \<open>
  \<^verbatim>\<open>FlutterNetworkWatcherPluginCApiRegisterWithRegistrar(registrar)\<close>, from
  \<^verbatim>\<open>windows/flutter_network_watcher_plugin_c_api.cpp\<close>: one statement, a call of
  \<open>RegisterWithRegistrar\<close> on what \<^verbatim>\<open>GetRegistrar\<close> returns for the reference. The
  host's \<^verbatim>\<open>PluginRegistrarManager::GetInstance()->GetRegistrar\<close> is not part of the
  repository and is taken as the parameter \<open>GetRegistrar\<close>: from a registrar reference
  and the state it gives the registrar and the state it leaves.

  The statement is written once, with the function it calls as a second parameter and
  over any type of state, so that the calls it makes can be observed by running it with
  a callee that counts them. The entry point is that statement with
  \<open>RegisterWithRegistrar\<close> as the callee.
\<close>

definition CApiRegisterWithRegistrar_body ::
    "(FlutterDesktopPluginRegistrarRef \<Rightarrow> 's \<Rightarrow> PluginRegistrarWindows \<times> 's) \<Rightarrow>
     (PluginRegistrarWindows \<Rightarrow> 's \<Rightarrow> error + 's) \<Rightarrow>
     FlutterDesktopPluginRegistrarRef \<Rightarrow> 's \<Rightarrow> error + 's" where
  "CApiRegisterWithRegistrar_body GetRegistrar callee registrar s =
     (case GetRegistrar registrar s of
        (r, s') \<Rightarrow> callee r s')"

definition FlutterNetworkWatcherPluginCApiRegisterWithRegistrar ::
    "(FlutterDesktopPluginRegistrarRef \<Rightarrow> host \<Rightarrow> PluginRegistrarWindows \<times> host) \<Rightarrow>
     FlutterDesktopPluginRegistrarRef \<Rightarrow> host \<Rightarrow> error + host" where
  "FlutterNetworkWatcherPluginCApiRegisterWithRegistrar GetRegistrar registrar h =
     CApiRegisterWithRegistrar_body GetRegistrar RegisterWithRegistrar registrar h"

text \<open>
  Observing the calls: the state is the host state with the list of registrars
  \<open>RegisterWithRegistrar\<close> has been invoked with, oldest first. \<open>counted\<close> runs a
  registration function and appends its argument to the list; \<open>uncounted\<close> runs
  \<open>GetRegistrar\<close> on the host state and leaves the list alone.
\<close>

definition counted ::
    "(PluginRegistrarWindows \<Rightarrow> host \<Rightarrow> error + host) \<Rightarrow>
     PluginRegistrarWindows \<Rightarrow> host \<times> PluginRegistrarWindows list \<Rightarrow>
     error + host \<times> PluginRegistrarWindows list" where
  "counted f r s =
     (case f r (fst s) of
        Inl e \<Rightarrow> Inl e
      | Inr h' \<Rightarrow> Inr (h', snd s @ [r]))"

definition uncounted ::
    "(FlutterDesktopPluginRegistrarRef \<Rightarrow> host \<Rightarrow> PluginRegistrarWindows \<times> host) \<Rightarrow>
     FlutterDesktopPluginRegistrarRef \<Rightarrow> host \<times> PluginRegistrarWindows list \<Rightarrow>
     PluginRegistrarWindows \<times> host \<times> PluginRegistrarWindows list" where
  "uncounted GetRegistrar ref s =
     (case GetRegistrar ref (fst s) of
        (r, h') \<Rightarrow> (r, h', snd s))"

text \<open>
  One possible host: a registrar manager that keeps every reference it is asked about
  and answers with a registrar of the same identity.
\<close>

definition keeping_GetRegistrar ::
    "FlutterDesktopPluginRegistrarRef \<Rightarrow> host \<Rightarrow> PluginRegistrarWindows \<times> host" where
  "keeping_GetRegistrar ref h = (ref, h\<lparr>retained := ref # retained h\<rparr>)"

section \<open>Sequences of calls\<close>

text \<open>
  Calling a function \<open>n\<close> times in succession, each call starting in the state the
  previous one left; an error ends the sequence, as a thrown exception would.
\<close>

primrec repeat_call :: "nat \<Rightarrow> (host \<Rightarrow> error + host) \<Rightarrow> host \<Rightarrow> error + host" where
  "repeat_call 0 f h = Inr h"
| "repeat_call (Suc n) f h =
     (case f h of Inl e \<Rightarrow> Inl e | Inr h' \<Rightarrow> repeat_call n f h')"

text \<open>Registrations with registrar handles that may differ from call to call.\<close>

datatype registration =
    LinuxRegistration FlPluginRegistrar
  | WindowsRegistration PluginRegistrarWindows

fun register :: "registration \<Rightarrow> host \<Rightarrow> error + host" where
  "register (LinuxRegistration r) h =
     flutter_network_watcher_plugin_register_with_registrar r h"
| "register (WindowsRegistration r) h = RegisterWithRegistrar r h"

fun register_all :: "registration list \<Rightarrow> host \<Rightarrow> error + host" where
  "register_all [] h = Inr h"
| "register_all (r # rs) h =
     (case register r h of Inl e \<Rightarrow> Inl e | Inr h' \<Rightarrow> register_all rs h')"

section \<open>Step relations\<close>

text \<open>The runs of a labelled step relation: the labels of the steps taken, in order.\<close>

inductive steps :: "('s \<Rightarrow> 'l \<Rightarrow> 's \<Rightarrow> bool) \<Rightarrow> 's \<Rightarrow> 'l list \<Rightarrow> 's \<Rightarrow> bool"
  for R :: "'s \<Rightarrow> 'l \<Rightarrow> 's \<Rightarrow> bool" where
  steps_done: "steps R s [] s"
| steps_more: "R s l s' \<Longrightarrow> steps R s' ls s'' \<Longrightarrow> steps R s (l # ls) s''"

text \<open>
  One method call handled by a plugin object. The state is the plugin object with the
  host state. The host hands the handler the call with a sink nobody has answered; the
  label is the call and what its sink holds when the handler has returned.
\<close>

datatype plugin =
    LinuxPlugin FlutterNetworkWatcherPlugin_struct
  | WindowsPlugin FlutterNetworkWatcherPlugin_class

inductive call_step ::
    "plugin \<times> host \<Rightarrow> MethodCall \<times> reply_sink \<Rightarrow> plugin \<times> host \<Rightarrow> bool" where
  linux_call:
    "method_call_cb ch
        \<lparr>fl_name = method_name mc, fl_args = arguments mc, fl_reply = []\<rparr> p h
       = Inr (p', c', h')
     \<Longrightarrow> call_step (LinuxPlugin p, h) (mc, fl_reply c') (LinuxPlugin p', h')"
| windows_call:
    "HandleMethodCall p mc [] h = Inr (p', result', h')
     \<Longrightarrow> call_step (WindowsPlugin p, h) (mc, result') (WindowsPlugin p', h')"

text \<open>
  The host with the plugin registered. An incoming call on a channel is routed to the
  handler installed for that channel, if there is one; the label says what the host
  did.
\<close>

datatype host_event =
    Registered registration
  | Unrouted string MethodCall
  | Invoked string callback MethodCall

fun is_Invoked :: "host_event \<Rightarrow> bool" where
  "is_Invoked (Invoked ch cb mc) = True"
| "is_Invoked (Registered r) = False"
| "is_Invoked (Unrouted ch mc) = False"

inductive host_step :: "host \<Rightarrow> host_event \<Rightarrow> host \<Rightarrow> bool" where
  registers:
    "register r h = Inr h' \<Longrightarrow> host_step h (Registered r) h'"
| no_handler:
    "map_of (channels h) ch = None \<Longrightarrow> host_step h (Unrouted ch mc) h"
| routes_linux:
    "map_of (channels h) ch = Some (Method_call_cb p) \<Longrightarrow>
     method_call_cb ch
        \<lparr>fl_name = method_name mc, fl_args = arguments mc, fl_reply = []\<rparr> p h
       = Inr (p', c', h')
     \<Longrightarrow> host_step h (Invoked ch (Method_call_cb p) mc) h'"
| routes_windows:
    "map_of (channels h) ch = Some (HandleMethodCall_cb p) \<Longrightarrow>
     HandleMethodCall p mc [] h = Inr (p', result', h')
     \<Longrightarrow> host_step h (Invoked ch (HandleMethodCall_cb p) mc) h'"

section \<open>Facts about the host functions and the step relations\<close>

lemma respond_terminal_fresh: "respond_terminal r [] = Inr [r]"
  by (simp add: respond_terminal_def)

lemma fl_respond_fresh:
  "fl_method_call_respond_not_implemented (c\<lparr>fl_reply := []\<rparr>) w
     = (True, c\<lparr>fl_reply := [NotImplemented]\<rparr>)"
  by (simp add: fl_method_call_respond_not_implemented_def respond_terminal_fresh)

lemma linux_handle_fresh:
  "flutter_network_watcher_plugin_handle_method_call self (c\<lparr>fl_reply := []\<rparr>) h
     = Inr (self, c\<lparr>fl_reply := [NotImplemented]\<rparr>, h)"
  by (simp add: flutter_network_watcher_plugin_handle_method_call_def fl_respond_fresh)

lemma method_call_cb_eq:
  "method_call_cb ch c p h = flutter_network_watcher_plugin_handle_method_call p c h"
  by (simp add: method_call_cb_def FLUTTER_NETWORK_WATCHER_PLUGIN_def)

lemma windows_handle_fresh:
  "HandleMethodCall p mc [] h = Inr (p, [NotImplemented], h)"
  by (simp add: HandleMethodCall_def MethodResult_NotImplemented_def respond_terminal_fresh)

lemma windows_handle_cases:
  "HandleMethodCall p mc result h =
     (if result = [] then Inr (p, [NotImplemented], h) else Inl ResponseAlreadySent)"
  by (simp add: HandleMethodCall_def MethodResult_NotImplemented_def respond_terminal_def)

lemma register_identity: "register r h = Inr h"
  by (cases r)
     (simp_all add: flutter_network_watcher_plugin_register_with_registrar_def
        RegisterWithRegistrar_def)

lemma repeat_call_identity:
  assumes "\<And>h. f h = Inr h"
  shows "repeat_call n f h = Inr h"
  by (induction n) (simp_all add: assms)

lemma register_all_identity: "register_all rs h = Inr h"
  by (induction rs) (simp_all add: register_identity)

lemma call_step_fixed:
  assumes "call_step s l s'"
  shows "s' = s \<and> snd l = [NotImplemented]"
  using assms
proof cases
  case (linux_call ch mc p h p' c' h')
  from linux_call(4) have "p' = p \<and> h' = h \<and> fl_reply c' = [NotImplemented]"
    by (auto simp: method_call_cb_eq flutter_network_watcher_plugin_handle_method_call_def
          fl_method_call_respond_not_implemented_def respond_terminal_fresh)
  with linux_call(1-3) show ?thesis by simp
next
  case (windows_call p mc h p' result' h')
  from windows_call(4) have "p' = p \<and> h' = h \<and> result' = [NotImplemented]"
    by (simp add: windows_handle_fresh)
  with windows_call(1-3) show ?thesis by simp
qed

lemma call_step_possible: "call_step (pl, h) (mc, [NotImplemented]) (pl, h)"
proof (cases pl)
  case (LinuxPlugin p)
  have "method_call_cb []
          \<lparr>fl_name = method_name mc, fl_args = arguments mc, fl_reply = []\<rparr> p h
        = Inr (p, \<lparr>fl_name = method_name mc, fl_args = arguments mc,
                   fl_reply = [NotImplemented]\<rparr>, h)"
    by (simp add: method_call_cb_eq flutter_network_watcher_plugin_handle_method_call_def
          fl_method_call_respond_not_implemented_def respond_terminal_fresh)
  from call_step.linux_call [OF this] LinuxPlugin show ?thesis by simp
next
  case (WindowsPlugin p)
  from call_step.windows_call [OF windows_handle_fresh] WindowsPlugin show ?thesis by simp
qed

lemma host_step_no_handlers:
  assumes "host_step h ev h'" and "channels h = []"
  shows "h' = h \<and> \<not> is_Invoked ev"
  using assms
  by cases (simp_all add: register_identity)

section \<open>The method-call handlers\<close>

text \<open>
  C1. For every method name and every argument payload, the handler of either platform,
  given the call's unanswered reply sink, leaves exactly one response in the sink, the
  "not implemented" one, and changes nothing else: the plugin object, the name and the
  arguments of the call and the host state come back as they went in.
\<close>

theorem handle_call_single_response:
  "flutter_network_watcher_plugin_handle_method_call self
       \<lparr>fl_name = name, fl_args = args, fl_reply = []\<rparr> h
     = Inr (self, \<lparr>fl_name = name, fl_args = args, fl_reply = [NotImplemented]\<rparr>, h)
   \<and> HandleMethodCall p \<lparr>method_name = name, arguments = args\<rparr> [] h
     = Inr (p, [NotImplemented], h)"
  using linux_handle_fresh [of self "\<lparr>fl_name = name, fl_args = args, fl_reply = []\<rparr>" h]
  by (simp add: windows_handle_fresh)

text \<open>
  Scenarios 1 and 2 of the spec: \<open>getStatus\<close> without arguments on Linux and
  \<open>subscribe\<close> with \<open>{interval: 5}\<close> on Windows.
\<close>

theorem handle_call_single_response_witness:
  "flutter_network_watcher_plugin_handle_method_call \<lparr>parent_instance = 7\<rparr>
       \<lparr>fl_name = ''getStatus'', fl_args = EvNull, fl_reply = []\<rparr> initial_host
     = Inr (\<lparr>parent_instance = 7\<rparr>,
            \<lparr>fl_name = ''getStatus'', fl_args = EvNull, fl_reply = [NotImplemented]\<rparr>,
            initial_host)
   \<and> HandleMethodCall \<lparr>Plugin_base = 3\<rparr>
       \<lparr>method_name = ''subscribe'',
        arguments = EvMap [(EvString ''interval'', EvInt 5)]\<rparr> [] initial_host
     = Inr (\<lparr>Plugin_base = 3\<rparr>, [NotImplemented], initial_host)"
  using handle_call_single_response
          [of "\<lparr>parent_instance = 7\<rparr>" "''getStatus''" EvNull initial_host]
        handle_call_single_response
          [of _ "''subscribe''" "EvMap [(EvString ''interval'', EvInt 5)]" initial_host
              "\<lparr>Plugin_base = 3\<rparr>"]
  by blast

text \<open>
  C4. The response does not depend on the call. On Linux two calls that differ in name
  and arguments leave the same thing in the sink; on Windows the whole result is the
  same for any two calls. With an unanswered sink that result is the fixed "not
  implemented" response, also when the method name is the empty string: the handler
  returns normally, there is no validation of the name.
\<close>

theorem response_independent_of_input:
  "(\<exists>r. flutter_network_watcher_plugin_handle_method_call self
            (c\<lparr>fl_name := na, fl_args := aa\<rparr>) h
          = Inr (self, c\<lparr>fl_name := na, fl_args := aa, fl_reply := r\<rparr>, h)
        \<and> flutter_network_watcher_plugin_handle_method_call self
            (c\<lparr>fl_name := nb, fl_args := ab\<rparr>) h
          = Inr (self, c\<lparr>fl_name := nb, fl_args := ab, fl_reply := r\<rparr>, h))
   \<and> HandleMethodCall p mca result h = HandleMethodCall p mcb result h
   \<and> HandleMethodCall p \<lparr>method_name = [], arguments = a\<rparr> [] h
       = Inr (p, [NotImplemented], h)
   \<and> HandleMethodCall p mca [] h = Inr (p, [NotImplemented], h)
   \<and> flutter_network_watcher_plugin_handle_method_call self
         \<lparr>fl_name = [], fl_args = a, fl_reply = []\<rparr> h
       = Inr (self, \<lparr>fl_name = [], fl_args = a, fl_reply = [NotImplemented]\<rparr>, h)"
proof -
  have linux: "\<exists>r. flutter_network_watcher_plugin_handle_method_call self
            (c\<lparr>fl_name := na, fl_args := aa\<rparr>) h
          = Inr (self, c\<lparr>fl_name := na, fl_args := aa, fl_reply := r\<rparr>, h)
        \<and> flutter_network_watcher_plugin_handle_method_call self
            (c\<lparr>fl_name := nb, fl_args := ab\<rparr>) h
          = Inr (self, c\<lparr>fl_name := nb, fl_args := ab, fl_reply := r\<rparr>, h)"
    by (rule exI [of _ "if fl_reply c = [] then [NotImplemented] else fl_reply c"])
       (simp add: flutter_network_watcher_plugin_handle_method_call_def
          fl_method_call_respond_not_implemented_def respond_terminal_def)
  have windows: "HandleMethodCall p mca result h = HandleMethodCall p mcb result h"
    by (simp add: windows_handle_cases)
  have empty_name: "flutter_network_watcher_plugin_handle_method_call self
         \<lparr>fl_name = [], fl_args = a, fl_reply = []\<rparr> h
       = Inr (self, \<lparr>fl_name = [], fl_args = a, fl_reply = [NotImplemented]\<rparr>, h)"
    using linux_handle_fresh [of self "\<lparr>fl_name = [], fl_args = a, fl_reply = []\<rparr>" h]
    by simp
  from linux windows empty_name show ?thesis
    by (simp add: windows_handle_fresh)
qed

text \<open>
  Scenario 4 of the spec against scenario 1: the empty method name and \<open>getStatus\<close>
  get the same result on Windows.
\<close>

theorem response_independent_of_input_witness:
  "HandleMethodCall \<lparr>Plugin_base = 3\<rparr> \<lparr>method_name = [], arguments = EvNull\<rparr>
       [] initial_host
     = HandleMethodCall \<lparr>Plugin_base = 3\<rparr>
         \<lparr>method_name = ''getStatus'', arguments = EvList [EvBool True]\<rparr> [] initial_host
   \<and> HandleMethodCall \<lparr>Plugin_base = 3\<rparr> \<lparr>method_name = [], arguments = EvNull\<rparr>
       [] initial_host
     = Inr (\<lparr>Plugin_base = 3\<rparr>, [NotImplemented], initial_host)"
  using response_independent_of_input
          [where p = "\<lparr>Plugin_base = 3\<rparr>"
             and mca = "\<lparr>method_name = [], arguments = EvNull\<rparr>"
             and mcb = "\<lparr>method_name = ''getStatus'', arguments = EvList [EvBool True]\<rparr>"
             and result = "[]" and h = initial_host]
  by blast

text \<open>
  C5. With a valid (unanswered) reply sink the handlers cannot fail: every one of them,
  the Linux callback included, returns normally with exactly the "not implemented"
  response in the sink and with the plugin object, the call and the host state as they
  were. No error value is a result of either handler. On Linux the status of the host
  call, which the handler discards, is \<open>True\<close>, so no failure is hidden; on Windows the
  host call returns normally, so nothing is thrown through the handler.
\<close>

theorem handle_call_never_fails:
  "flutter_network_watcher_plugin_handle_method_call self (c\<lparr>fl_reply := []\<rparr>) h
     = Inr (self, c\<lparr>fl_reply := [NotImplemented]\<rparr>, h)
   \<and> method_call_cb ch (c\<lparr>fl_reply := []\<rparr>) self h
     = Inr (self, c\<lparr>fl_reply := [NotImplemented]\<rparr>, h)
   \<and> HandleMethodCall p mc [] h = Inr (p, [NotImplemented], h)
   \<and> (\<forall>e. flutter_network_watcher_plugin_handle_method_call self (c\<lparr>fl_reply := []\<rparr>) h
          \<noteq> Inl e)
   \<and> (\<forall>e. method_call_cb ch (c\<lparr>fl_reply := []\<rparr>) self h \<noteq> Inl e)
   \<and> fst (fl_method_call_respond_not_implemented (c\<lparr>fl_reply := []\<rparr>) False)
   \<and> MethodResult_NotImplemented [] = Inr [NotImplemented]
   \<and> (\<forall>e. HandleMethodCall p mc [] h \<noteq> Inl e)"
  by (simp add: method_call_cb_eq linux_handle_fresh fl_respond_fresh windows_handle_fresh
        MethodResult_NotImplemented_def respond_terminal_fresh)

theorem handle_call_never_fails_witness:
  "flutter_network_watcher_plugin_handle_method_call \<lparr>parent_instance = 7\<rparr>
       \<lparr>fl_name = ''subscribe'', fl_args = EvInt 5, fl_reply = []\<rparr> initial_host
     = Inr (\<lparr>parent_instance = 7\<rparr>,
            \<lparr>fl_name = ''subscribe'', fl_args = EvInt 5, fl_reply = [NotImplemented]\<rparr>,
            initial_host)
   \<and> flutter_network_watcher_plugin_handle_method_call \<lparr>parent_instance = 7\<rparr>
       \<lparr>fl_name = ''subscribe'', fl_args = EvInt 5, fl_reply = []\<rparr> initial_host
     \<noteq> Inl ResponseAlreadySent
   \<and> HandleMethodCall \<lparr>Plugin_base = 3\<rparr>
       \<lparr>method_name = ''subscribe'', arguments = EvInt 5\<rparr> [] initial_host
     = Inr (\<lparr>Plugin_base = 3\<rparr>, [NotImplemented], initial_host)
   \<and> HandleMethodCall \<lparr>Plugin_base = 3\<rparr>
       \<lparr>method_name = ''subscribe'', arguments = EvInt 5\<rparr> [] initial_host
     \<noteq> Inl ResponseAlreadySent"
  using handle_call_never_fails
          [where self = "\<lparr>parent_instance = 7\<rparr>"
             and c = "\<lparr>fl_name = ''subscribe'', fl_args = EvInt 5, fl_reply = []\<rparr>"
             and h = initial_host
             and p = "\<lparr>Plugin_base = 3\<rparr>"
             and mc = "\<lparr>method_name = ''subscribe'', arguments = EvInt 5\<rparr>"]
  by simp

section \<open>Registration\<close>

text \<open>
  C2. For every registrar handle, registration on either platform returns normally and
  returns the host state it was given: no channel is created, no plugin object and no
  registrar handle is kept, no I/O is performed, and nothing else changes either.
\<close>

theorem register_no_effect:
  "flutter_network_watcher_plugin_register_with_registrar registrar h = Inr h
   \<and> RegisterWithRegistrar registrar' h = Inr h
   \<and> (\<exists>h'. register r h = Inr h'
          \<and> channels h' = channels h \<and> plugins h' = plugins h
          \<and> retained h' = retained h \<and> io h' = io h \<and> scheduled h' = scheduled h)"
  by (simp add: flutter_network_watcher_plugin_register_with_registrar_def
        RegisterWithRegistrar_def register_identity)

text \<open>
  C3. Registration is idempotent. Calling it \<open>n\<close> times in succession gives what one
  call gives and what no call gives, the unchanged host state, and no call fails; this
  holds for every \<open>n\<close>, on either platform, and also when the registrar handle differs
  from call to call.
\<close>

theorem register_idempotent:
  "repeat_call n (flutter_network_watcher_plugin_register_with_registrar r) h
     = repeat_call (Suc 0) (flutter_network_watcher_plugin_register_with_registrar r) h
   \<and> repeat_call n (flutter_network_watcher_plugin_register_with_registrar r) h
     = repeat_call 0 (flutter_network_watcher_plugin_register_with_registrar r) h
   \<and> repeat_call n (flutter_network_watcher_plugin_register_with_registrar r) h = Inr h
   \<and> repeat_call n (RegisterWithRegistrar r') h
     = repeat_call (Suc 0) (RegisterWithRegistrar r') h
   \<and> repeat_call n (RegisterWithRegistrar r') h
     = repeat_call 0 (RegisterWithRegistrar r') h
   \<and> repeat_call n (RegisterWithRegistrar r') h = Inr h
   \<and> register_all rs h = Inr h"
proof -
  have linux: "repeat_call k (flutter_network_watcher_plugin_register_with_registrar r) h
                 = Inr h" for k
    by (rule repeat_call_identity)
       (simp add: flutter_network_watcher_plugin_register_with_registrar_def)
  have windows: "repeat_call k (RegisterWithRegistrar r') h = Inr h" for k
    by (rule repeat_call_identity) (simp add: RegisterWithRegistrar_def)
  show ?thesis
    by (simp only: linux windows register_all_identity simp_thms)
qed

text \<open>Scenario 3 of the spec: registering twice in succession.\<close>

theorem register_idempotent_witness:
  "repeat_call 2 (flutter_network_watcher_plugin_register_with_registrar 11) initial_host
     = Inr initial_host
   \<and> repeat_call 2 (RegisterWithRegistrar 12) initial_host = Inr initial_host
   \<and> register_all [WindowsRegistration 12, WindowsRegistration 13] initial_host
     = Inr initial_host"
  using register_idempotent
          [of 2 11 initial_host 12 "[WindowsRegistration 12, WindowsRegistration 13]"]
  by blast

text \<open>
  C9. The Windows C API entry point obtains the registrar from the reference through the
  host's \<open>GetRegistrar\<close> and invokes \<open>RegisterWithRegistrar\<close> exactly once, with that
  registrar, in the state \<open>GetRegistrar\<close> left: run with a callee that counts, the list
  of invocations grows by that one registrar, and with any callee at all the entry
  point's statement is one application of the callee. Its effect on the host is exactly
  the effect of obtaining the registrar, and it is equal to \<open>RegisterWithRegistrar\<close> on
  that registrar when obtaining the registrar changes nothing.
\<close>

theorem c_api_register_delegates_once:
  "CApiRegisterWithRegistrar_body (uncounted GetRegistrar) (counted RegisterWithRegistrar)
       ref (h, invoked)
     = Inr (snd (GetRegistrar ref h), invoked @ [fst (GetRegistrar ref h)])
   \<and> CApiRegisterWithRegistrar_body get callee ref s
     = callee (fst (get ref s)) (snd (get ref s))
   \<and> FlutterNetworkWatcherPluginCApiRegisterWithRegistrar GetRegistrar ref h
     = RegisterWithRegistrar (fst (GetRegistrar ref h)) (snd (GetRegistrar ref h))
   \<and> FlutterNetworkWatcherPluginCApiRegisterWithRegistrar GetRegistrar ref h
     = Inr (snd (GetRegistrar ref h))
   \<and> FlutterNetworkWatcherPluginCApiRegisterWithRegistrar (\<lambda>ref h. (lookup ref, h)) ref h
     = RegisterWithRegistrar (lookup ref) h"
proof -
  have body: "CApiRegisterWithRegistrar_body g f x t = f (fst (g x t)) (snd (g x t))"
    for g :: "FlutterDesktopPluginRegistrarRef \<Rightarrow> 't \<Rightarrow> PluginRegistrarWindows \<times> 't"
    and f x t
    by (simp add: CApiRegisterWithRegistrar_body_def split: prod.split)
  have once: "CApiRegisterWithRegistrar_body (uncounted GetRegistrar)
       (counted RegisterWithRegistrar) ref (h, invoked)
     = Inr (snd (GetRegistrar ref h), invoked @ [fst (GetRegistrar ref h)])"
    by (simp add: body uncounted_def counted_def RegisterWithRegistrar_def
          split: prod.split)
  have entry: "FlutterNetworkWatcherPluginCApiRegisterWithRegistrar g x h
     = RegisterWithRegistrar (fst (g x h)) (snd (g x h))" for g x
    by (simp add: FlutterNetworkWatcherPluginCApiRegisterWithRegistrar_def body)
  have any_callee: "CApiRegisterWithRegistrar_body get callee ref s
     = callee (fst (get ref s)) (snd (get ref s))"
    by (rule body)
  have delegated: "FlutterNetworkWatcherPluginCApiRegisterWithRegistrar GetRegistrar ref h
     = RegisterWithRegistrar (fst (GetRegistrar ref h)) (snd (GetRegistrar ref h))"
    by (rule entry)
  have effect: "FlutterNetworkWatcherPluginCApiRegisterWithRegistrar GetRegistrar ref h
     = Inr (snd (GetRegistrar ref h))"
    by (simp add: entry RegisterWithRegistrar_def)
  have pure: "FlutterNetworkWatcherPluginCApiRegisterWithRegistrar
       (\<lambda>ref h. (lookup ref, h)) ref h
     = RegisterWithRegistrar (lookup ref) h"
    by (simp add: entry)
  show ?thesis
    by (intro conjI) (fact once any_callee delegated effect pure)+
qed

text \<open>
  With a host whose \<open>GetRegistrar\<close> keeps the reference, the entry point is not equal to
  \<open>RegisterWithRegistrar\<close>: registering through the C API leaves the reference kept,
  registering directly leaves the host as it was.
\<close>

theorem c_api_register_not_equal_counterexample:
  "FlutterNetworkWatcherPluginCApiRegisterWithRegistrar keeping_GetRegistrar 5 initial_host
     \<noteq> RegisterWithRegistrar (fst (keeping_GetRegistrar 5 initial_host)) initial_host"
  by (simp add: FlutterNetworkWatcherPluginCApiRegisterWithRegistrar_def
        CApiRegisterWithRegistrar_body_def keeping_GetRegistrar_def
        RegisterWithRegistrar_def initial_host_def)

section \<open>Termination, state and routing\<close>

text \<open>
  C6. Every entry point returns, for every input, in the call itself: the Linux callback
  and both registration functions always return normally, the Windows handler returns
  either normally or with the host's error for a sink that was answered before, and a
  call with an unanswered sink always has a step. The host state that comes back is the
  one that went in, so no work was queued to run later and no I/O was started.
\<close>

theorem calls_complete:
  "(\<exists>c' h'. method_call_cb ch c p h = Inr (p, c', h')
        \<and> scheduled h' = scheduled h \<and> io h' = io h)
   \<and> ((\<exists>e. HandleMethodCall wp mc result h = Inl e)
       \<or> (\<exists>result' h'. HandleMethodCall wp mc result h = Inr (wp, result', h')
             \<and> scheduled h' = scheduled h \<and> io h' = io h))
   \<and> (\<exists>h'. register r h = Inr h' \<and> scheduled h' = scheduled h \<and> io h' = io h)
   \<and> (\<exists>reply s'. call_step (pl, h) (mc, reply) s')"
proof -
  have linux: "\<exists>c' h'. method_call_cb ch c p h = Inr (p, c', h')
        \<and> scheduled h' = scheduled h \<and> io h' = io h"
    by (simp add: method_call_cb_eq flutter_network_watcher_plugin_handle_method_call_def)
  have windows: "(\<exists>e. HandleMethodCall wp mc result h = Inl e)
       \<or> (\<exists>result' h'. HandleMethodCall wp mc result h = Inr (wp, result', h')
             \<and> scheduled h' = scheduled h \<and> io h' = io h)"
    by (simp add: windows_handle_cases)
  have reg: "\<exists>h'. register r h = Inr h' \<and> scheduled h' = scheduled h \<and> io h' = io h"
    by (simp add: register_identity)
  have step: "\<exists>reply s'. call_step (pl, h) (mc, reply) s'"
    using call_step_possible by blast
  from linux windows reg step show ?thesis by blast
qed

text \<open>
  C7. There is no state machine. A plugin object of either platform can handle any call,
  and any sequence of calls: the step exists, it ends in the state it started in, and
  the sink of the call then holds exactly one response, the "not implemented" one.
  Conversely, whatever calls a plugin object handles, in any number and order, the state
  after them is the state before them, so the only reachable state is the initial one,
  and the sink of every call holds exactly that one response.
\<close>

theorem no_state_machine:
  "call_step (pl, h) (mc, [NotImplemented]) (pl, h)
   \<and> steps call_step (pl, h) (map (\<lambda>mc. (mc, [NotImplemented])) mcs) (pl, h)
   \<and> (steps call_step s calls s'
        \<longrightarrow> s' = s \<and> list_all (\<lambda>l. snd l = [NotImplemented]) calls)"
proof -
  have run: "steps call_step (pl, h) (map (\<lambda>mc. (mc, [NotImplemented])) mcs) (pl, h)"
  proof (induction mcs)
    case Nil
    show ?case by (simp add: steps_done)
  next
    case (Cons m ms)
    from steps_more [of call_step, OF call_step_possible [of pl h m] Cons.IH]
    show ?case by simp
  qed
  have fixed: "s' = s \<and> list_all (\<lambda>l. snd l = [NotImplemented]) calls"
    if "steps call_step s calls s'"
    using that
  proof (induction rule: steps.induct)
    case (steps_done s)
    show ?case by simp
  next
    case (steps_more s l s' ls s'')
    from call_step_fixed [OF steps_more.hyps(1)] steps_more.IH show ?case by simp
  qed
  from run fixed call_step_possible [of pl h mc] show ?thesis by blast
qed

text \<open>
  Two calls, \<open>getStatus\<close> and one with the empty method name, handled by a Windows
  plugin object and by a Linux one.
\<close>

theorem no_state_machine_witness:
  "steps call_step (WindowsPlugin \<lparr>Plugin_base = 3\<rparr>, initial_host)
     [(\<lparr>method_name = ''getStatus'', arguments = EvNull\<rparr>, [NotImplemented]),
      (\<lparr>method_name = [], arguments = EvInt 5\<rparr>, [NotImplemented])]
     (WindowsPlugin \<lparr>Plugin_base = 3\<rparr>, initial_host)
   \<and> steps call_step (LinuxPlugin \<lparr>parent_instance = 7\<rparr>, initial_host)
     [(\<lparr>method_name = ''getStatus'', arguments = EvNull\<rparr>, [NotImplemented]),
      (\<lparr>method_name = [], arguments = EvInt 5\<rparr>, [NotImplemented])]
     (LinuxPlugin \<lparr>parent_instance = 7\<rparr>, initial_host)
   \<and> call_step (WindowsPlugin \<lparr>Plugin_base = 3\<rparr>, initial_host)
     (\<lparr>method_name = ''getStatus'', arguments = EvNull\<rparr>, [NotImplemented])
     (WindowsPlugin \<lparr>Plugin_base = 3\<rparr>, initial_host)
   \<and> list_all (\<lambda>l. snd l = [NotImplemented])
     [(\<lparr>method_name = ''getStatus'', arguments = EvNull\<rparr>, [NotImplemented]),
      (\<lparr>method_name = [], arguments = EvInt 5\<rparr>, [NotImplemented :: response])]"
proof -
  let ?calls = "[\<lparr>method_name = ''getStatus'', arguments = EvNull\<rparr>,
                 \<lparr>method_name = [], arguments = EvInt 5\<rparr>]"
  let ?trace = "[(\<lparr>method_name = ''getStatus'', arguments = EvNull\<rparr>, [NotImplemented]),
                 (\<lparr>method_name = [], arguments = EvInt 5\<rparr>, [NotImplemented])]"
  let ?W = "(WindowsPlugin \<lparr>Plugin_base = 3\<rparr>, initial_host)"
  let ?L = "(LinuxPlugin \<lparr>parent_instance = 7\<rparr>, initial_host)"
  note windows = no_state_machine
      [where pl = "WindowsPlugin \<lparr>Plugin_base = 3\<rparr>" and h = initial_host
         and mc = "\<lparr>method_name = ''getStatus'', arguments = EvNull\<rparr>"
         and mcs = ?calls and s = ?W and calls = ?trace and s' = ?W]
  note linux = no_state_machine
      [where pl = "LinuxPlugin \<lparr>parent_instance = 7\<rparr>" and h = initial_host
         and mc = "\<lparr>method_name = ''getStatus'', arguments = EvNull\<rparr>"
         and mcs = ?calls and s = ?L and calls = ?trace and s' = ?L]
  have map_calls: "map (\<lambda>mc. (mc, [NotImplemented])) ?calls = ?trace"
    by simp
  from windows have w_run: "steps call_step ?W ?trace ?W"
    unfolding map_calls by (rule conjunct1 [OF conjunct2])
  from linux have l_run: "steps call_step ?L ?trace ?L"
    unfolding map_calls by (rule conjunct1 [OF conjunct2])
  from windows have w_step: "call_step ?W
     (\<lparr>method_name = ''getStatus'', arguments = EvNull\<rparr>, [NotImplemented]) ?W"
    by (rule conjunct1)
  from windows w_run have w_fixed: "list_all (\<lambda>l. snd l = [NotImplemented]) ?trace"
    by blast
  from w_run l_run w_step w_fixed show ?thesis by blast
qed

text \<open>
  C8. The handlers are dead code in the registered program. A host that starts without
  any handler installed and then registers the plugin and receives calls, in any number
  and order, never has a handler installed: its state stays the initial one, every
  incoming call finds no handler, and no step invokes \<open>method_call_cb\<close> or
  \<open>HandleMethodCall\<close>.
\<close>

theorem handler_never_invoked:
  assumes "steps host_step h0 events h" and "channels h0 = []"
  shows "h = h0 \<and> channels h = [] \<and> list_all (\<lambda>ev. \<not> is_Invoked ev) events"
  using assms
proof (induction rule: steps.induct)
  case (steps_done s)
  then show ?case by simp
next
  case (steps_more s l s' ls s'')
  from host_step_no_handlers [OF steps_more.hyps(1) steps_more.prems]
  have here: "s' = s" "\<not> is_Invoked l" by simp_all
  with steps_more.IH steps_more.prems show ?case by simp
qed

theorem handler_never_invoked_witness:
  "steps host_step initial_host
     [Registered (LinuxRegistration 11),
      Unrouted ''flutter_network_watcher'' \<lparr>method_name = ''getStatus'', arguments = EvNull\<rparr>,
      Registered (WindowsRegistration 12)]
     initial_host
   \<and> channels initial_host = []
   \<and> list_all (\<lambda>ev. \<not> is_Invoked ev)
     [Registered (LinuxRegistration 11),
      Unrouted ''flutter_network_watcher'' \<lparr>method_name = ''getStatus'', arguments = EvNull\<rparr>,
      Registered (WindowsRegistration 12)]"
proof -
  have none: "channels initial_host = []"
    by (simp add: initial_host_def)
  have reg: "host_step initial_host (Registered r) initial_host" for r
    by (rule host_step.registers) (rule register_identity)
  have call: "host_step initial_host (Unrouted ch mc) initial_host" for ch mc
    by (rule host_step.no_handler) (simp add: none)
  have run: "steps host_step initial_host
     [Registered (LinuxRegistration 11),
      Unrouted ''flutter_network_watcher'' \<lparr>method_name = ''getStatus'', arguments = EvNull\<rparr>,
      Registered (WindowsRegistration 12)]
     initial_host"
    by (rule steps_more, rule reg, rule steps_more, rule call, rule steps_more, rule reg,
        rule steps_done)
  from handler_never_invoked [OF run none] run none show ?thesis by blast
qed

text \<open>
  C10. The plugin object is stateless. Constructing and destroying it leaves the host as
  it was, and initialising the Linux object leaves it as it was. A handler returns the
  object it was called on unchanged, and two runs with the same call, on any two objects
  and in any two host states, finish alike: with the same response in the sink, or on
  Windows both with the same error.
\<close>

theorem plugin_stateless:
  "snd (FlutterNetworkWatcherPlugin_ctor base h) = h
   \<and> FlutterNetworkWatcherPlugin_dtor p h = h
   \<and> flutter_network_watcher_plugin_init self = self
   \<and> (\<exists>c'. flutter_network_watcher_plugin_handle_method_call self c h = Inr (self, c', h)
          \<and> flutter_network_watcher_plugin_handle_method_call self' c h'
              = Inr (self', c', h'))
   \<and> ((\<exists>e. HandleMethodCall p mc result h = Inl e
            \<and> HandleMethodCall p' mc result h' = Inl e)
       \<or> (\<exists>result'. HandleMethodCall p mc result h = Inr (p, result', h)
            \<and> HandleMethodCall p' mc result h' = Inr (p', result', h')))"
  by (simp add: FlutterNetworkWatcherPlugin_ctor_def FlutterNetworkWatcherPlugin_dtor_def
        flutter_network_watcher_plugin_init_def windows_handle_cases
        flutter_network_watcher_plugin_handle_method_call_def)

end
